theory Spec2Isabelle
  imports Complex_Main "HOL-Library.Word" "HOL-Library.Multiset"
begin

section \<open>Colour strip analyser: the pad-detection and calibration pipeline\<close>

text \<open>
  A shallow embedding of \<^verbatim>\<open>analyze_strip_image\<close> of
  \<^verbatim>\<open>ColorAnalyzerApp/backend/main.py\<close>. NumPy's float64 values are modelled as
  real numbers, so the arithmetic below is exact; where rounding decides what the code
  reports, the rounded value enters as the result of a parameter. The routines of
  OpenCV and the least-squares solve inside \<^verbatim>\<open>numpy.polyfit\<close> are not part of
  the repository: they are parameters of the model, each with an error result, and
  the small NumPy and scikit-learn helpers (\<^verbatim>\<open>mean\<close>, \<^verbatim>\<open>std\<close>,
  \<^verbatim>\<open>median\<close>, \<^verbatim>\<open>clip\<close>, \<^verbatim>\<open>linspace\<close>, \<^verbatim>\<open>r2_score\<close>, ...)
  follow their documented behaviour.
\<close>

subsection \<open>Data\<close>

datatype error =
    ZeroDivisionError
  | CvError
  | LinAlgError
  | TypeError string
  | ValueError string

type_synonym uint8 = "8 word"

text \<open>An array of shape (shape0, shape1): \<open>item a Y X\<close> is \<^verbatim>\<open>a[Y, X]\<close>.\<close>

record 'a ndarray =
  shape0 :: nat
  shape1 :: nat
  item :: "nat \<Rightarrow> nat \<Rightarrow> 'a"

text \<open>A colour image holds three channels per pixel, in the order B, G, R (or H, S, V).\<close>

type_synonym image = "(uint8 \<times> uint8 \<times> uint8) ndarray"
type_synonym plane = "uint8 ndarray"

text \<open>
  The OpenCV calls of the pipeline. \<open>cv_resize img scale\<close> is
  \<^verbatim>\<open>cv2.resize(img, None, fx=scale, fy=scale, interpolation=cv2.INTER_AREA)\<close>;
  \<open>cv_hsv_split\<close> is \<^verbatim>\<open>cv2.split(cv2.cvtColor(img, cv2.COLOR_BGR2HSV))\<close>;
  \<open>cv_clean_contours\<close> is the opening with the 3x3 ellipse, the closing with the 5x5
  ellipse and \<^verbatim>\<open>cv2.findContours\<close> on the result. Each of them may raise.
  \<open>'c\<close> is the type of a contour.
\<close>

record 'c opencv =
  cv_resize :: "image \<Rightarrow> real \<Rightarrow> error + image"
  cv_hsv_split :: "image \<Rightarrow> error + (plane \<times> plane \<times> plane)"
  cv_clean_contours :: "plane \<Rightarrow> error + 'c list"
  cv_contourArea :: "'c \<Rightarrow> real"
  cv_arcLength :: "'c \<Rightarrow> real"
  cv_minEnclosingCircle :: "'c \<Rightarrow> (real \<times> real) \<times> real"

text \<open>
  The least-squares solve that \<^verbatim>\<open>np.polyfit(x, y, deg)\<close> performs in float64
  (\<^verbatim>\<open>numpy.linalg.lstsq\<close> on the Vandermonde matrix of \<open>x\<close>): the coefficients it
  returns, highest power first, or the exception it raises.
\<close>

type_synonym lstsq = "real list \<Rightarrow> real list \<Rightarrow> nat \<Rightarrow> error + real list"

text \<open>A blob is the tuple \<^verbatim>\<open>(int(x), int(y), int(round(r)), float(area), float(circ))\<close>.\<close>

type_synonym blob = "int \<times> int \<times> int \<times> real \<times> real"

definition blob_x :: "blob \<Rightarrow> int" where
  "blob_x b = fst b"

definition blob_y :: "blob \<Rightarrow> int" where
  "blob_y b = fst (snd b)"

definition blob_r :: "blob \<Rightarrow> int" where
  "blob_r b = fst (snd (snd b))"

record rgb_stats =
  r_mean :: real
  g_mean :: real
  b_mean :: real
  s_mean :: real
  r_std :: real
  g_std :: real
  b_std :: real

record channel_fit =
  coeffs :: "real list"
  inv_coeffs :: "real list"
  r2 :: real
  mae :: real
  rmse :: real
  fit_x :: "real list"
  fit_y :: "real list"
  actual_x :: "real list"
  actual_y :: "real list"
  predicted_concentration :: "real list"

record well_record =
  well :: nat
  concentration :: real
  well_r :: real
  well_g :: real
  well_b :: real
  well_rgb_mean :: real
  well_s_mean :: real
  pred_from_r :: real
  pred_from_g :: real
  pred_from_b :: real
  pred_from_rgb :: real

record metrics =
  trial_r2 :: real
  trial_mae :: real
  trial_rmse :: real

record report =
  color_values :: "well_record list"
  r_channel :: channel_fit
  g_channel :: channel_fit
  b_channel :: channel_fit
  rgb_mean_channel :: channel_fit
  trial_metrics :: metrics

subsection \<open>Constants\<close>

definition EXPECTED_COLS :: nat where
  "EXPECTED_COLS = 11"

definition CONCENTRATIONS :: "real list" where
  "CONCENTRATIONS = [0.5, 1, 2, 3, 4, 5, 6, 7, 8, 9, 10]"

definition SAT_THRESH :: uint8 where
  "SAT_THRESH = 35"

definition VAL_THRESH :: uint8 where
  "VAL_THRESH = 40"

definition MIN_BLOB_AREA :: real where
  "MIN_BLOB_AREA = 60"

definition no_pads_message :: string where
  "no_pads_message = ''No valid color pads detected on the strip.''"

subsection \<open>Python and NumPy helpers\<close>

text \<open>\<^verbatim>\<open>int(x)\<close> on a float truncates towards zero.\<close>

definition py_int :: "real \<Rightarrow> int" where
  "py_int x = (if 0 \<le> x then \<lfloor>x\<rfloor> else \<lceil>x\<rceil>)"

text \<open>\<^verbatim>\<open>round(x)\<close> on a float rounds to the nearest integer, a tie to the even one.\<close>

definition py_round :: "real \<Rightarrow> int" where
  "py_round x =
     (let f = \<lfloor>x\<rfloor>; d = x - of_int f
      in if d < 1 / 2 then f
         else if 1 / 2 < d then f + 1
         else if even f then f else f + 1)"

definition np_mean :: "real list \<Rightarrow> real" where
  "np_mean xs = sum_list xs / real (length xs)"

definition np_std :: "real list \<Rightarrow> real" where
  "np_std xs = (let m = np_mean xs in sqrt (np_mean (map (\<lambda>x. (x - m)\<^sup>2) xs)))"

text \<open>\<^verbatim>\<open>np.median\<close>: the middle of the sorted values, the mean of the two middle ones
  for an even count.\<close>

definition np_median :: "real list \<Rightarrow> real" where
  "np_median xs =
     (let s = sort xs; n = length s
      in if odd n then s ! (n div 2)
         else (s ! (n div 2 - 1) + s ! (n div 2)) / 2)"

definition np_clip :: "real \<Rightarrow> real \<Rightarrow> real \<Rightarrow> real" where
  "np_clip a a_min a_max = min (max a a_min) a_max"

definition np_min :: "real list \<Rightarrow> real" where
  "np_min xs = fold min (tl xs) (hd xs)"

definition np_max :: "real list \<Rightarrow> real" where
  "np_max xs = fold max (tl xs) (hd xs)"

definition np_linspace :: "real \<Rightarrow> real \<Rightarrow> nat \<Rightarrow> real list" where
  "np_linspace start stop num =
     map (\<lambda>i. start + real i * ((stop - start) / real (num - 1))) [0..<num]"

text \<open>\<^verbatim>\<open>np.poly1d(c)(x)\<close>: Horner evaluation, highest power first.\<close>

definition poly1d :: "real list \<Rightarrow> real \<Rightarrow> real" where
  "poly1d c x = foldl (\<lambda>acc a. acc * x + a) 0 c"

definition sq_diffs :: "real list \<Rightarrow> real list \<Rightarrow> real list" where
  "sq_diffs ys zs = map2 (\<lambda>y z. (y - z)\<^sup>2) ys zs"

text \<open>
  \<^verbatim>\<open>sklearn.metrics.r2_score\<close> with its default \<^verbatim>\<open>force_finite=True\<close>:
  the quotient is only formed when both sums of squares are nonzero; a zero residual
  sum scores 1.0, and a zero total sum with a nonzero residual sum scores 0.0. The two
  sums are those of exact arithmetic: the residual sum is zero exactly when every
  prediction equals its value, in float64 as here, while the total sum of a constant
  \<^verbatim>\<open>y_true\<close> is zero here and in float64 only when the mean is computed
  without rounding.
\<close>

definition r2_score :: "real list \<Rightarrow> real list \<Rightarrow> real" where
  "r2_score y_true y_pred =
     (let numerator = sum_list (sq_diffs y_true y_pred);
          denominator = sum_list (map (\<lambda>y. (y - np_mean y_true)\<^sup>2) y_true)
      in if numerator \<noteq> 0 \<and> denominator \<noteq> 0 then 1 - numerator / denominator
         else if numerator \<noteq> 0 then 0
         else 1)"

definition mean_absolute_error :: "real list \<Rightarrow> real list \<Rightarrow> real" where
  "mean_absolute_error y_true y_pred = np_mean (map2 (\<lambda>y z. \<bar>y - z\<bar>) y_true y_pred)"

definition mean_squared_error :: "real list \<Rightarrow> real list \<Rightarrow> real" where
  "mean_squared_error y_true y_pred = np_mean (sq_diffs y_true y_pred)"

subsection \<open>Pad segmenter\<close>

text \<open>\<^verbatim>\<open>((S > SAT_THRESH) & (V > VAL_THRESH)).astype("uint8") * 255\<close>\<close>

definition threshold_mask :: "plane \<Rightarrow> plane \<Rightarrow> plane" where
  "threshold_mask S V =
     \<lparr>shape0 = shape0 S, shape1 = shape1 S,
      item = (\<lambda>Y X. if SAT_THRESH < item S Y X \<and> VAL_THRESH < item V Y X then 255 else 0)\<rparr>"

text \<open>The loop over the contours: \<^verbatim>\<open>continue\<close> skips, \<^verbatim>\<open>append\<close> keeps.\<close>

fun detect_blobs :: "'c opencv \<Rightarrow> 'c list \<Rightarrow> blob list" where
  "detect_blobs cv [] = []"
| "detect_blobs cv (c # cnts) =
     (let area = cv_contourArea cv c
      in if area < 5 then detect_blobs cv cnts
         else
           let peri = cv_arcLength cv c
           in if peri = 0 then detect_blobs cv cnts
              else
                let circ = 4 * pi * area / (peri * peri);
                    xyr = cv_minEnclosingCircle cv c;
                    x = fst (fst xyr); y = snd (fst xyr); r = snd xyr
                in if MIN_BLOB_AREA \<le> area \<and> 3 / 10 \<le> circ
                   then (py_int x, py_int y, py_round r, area, circ)
                        # detect_blobs cv cnts
                   else detect_blobs cv cnts)"

subsection \<open>Pad selector and orderer\<close>

text \<open>Python's \<^verbatim>\<open>sorted\<close> is stable, as \<open>sort_key\<close> is.\<close>

definition select_blobs :: "blob list \<Rightarrow> blob list" where
  "select_blobs blobs0 =
     (let blobs = sort_key blob_x blobs0
      in if EXPECTED_COLS < length blobs
         then
           let ys = map (\<lambda>b. real_of_int (blob_y b)) blobs;
               median_y = np_median ys;
               kept = take EXPECTED_COLS
                        (sort_key (\<lambda>b. \<bar>real_of_int (blob_y b) - median_y\<bar>) blobs)
           in sort_key blob_x kept
         else blobs)"

subsection \<open>Colour sampler\<close>

text \<open>The pixels \<open>(Y, X)\<close> of the image with \<^verbatim>\<open>dist2 <= rr * rr\<close>, in row-major
  order, as boolean-mask indexing returns them.\<close>

definition mask_circle :: "nat \<Rightarrow> nat \<Rightarrow> int \<Rightarrow> int \<Rightarrow> int \<Rightarrow> (nat \<times> nat) list" where
  "mask_circle h_img w_img cx cy rr =
     concat (map (\<lambda>Y.
       map (\<lambda>X. (Y, X))
         (filter (\<lambda>X. (int X - cx)\<^sup>2 + (int Y - cy)\<^sup>2 \<le> rr * rr) [0..<w_img]))
       [0..<h_img])"

definition sample_radius :: "int \<Rightarrow> int" where
  "sample_radius r = max 1 (py_int (of_int r * (72 / 100)))"

definition zero_stats :: rgb_stats where
  "zero_stats = \<lparr>r_mean = 0, g_mean = 0, b_mean = 0, s_mean = 0,
                 r_std = 0, g_std = 0, b_std = 0\<rparr>"

definition u8 :: "uint8 \<Rightarrow> real" where
  "u8 v = real (unat v)"

definition sample_blob :: "image \<Rightarrow> plane \<Rightarrow> blob \<Rightarrow> rgb_stats" where
  "sample_blob img_bgr S blob =
     (let rr = sample_radius (blob_r blob);
          sel = mask_circle (shape0 img_bgr) (shape1 img_bgr) (blob_x blob) (blob_y blob) rr;
          b_vals = map (\<lambda>(Y, X). u8 (fst (item img_bgr Y X))) sel;
          g_vals = map (\<lambda>(Y, X). u8 (fst (snd (item img_bgr Y X)))) sel;
          r_vals = map (\<lambda>(Y, X). u8 (snd (snd (item img_bgr Y X)))) sel;
          s_vals = map (\<lambda>(Y, X). u8 (item S Y X)) sel
      in if 0 < length b_vals
         then \<lparr>r_mean = np_mean r_vals, g_mean = np_mean g_vals, b_mean = np_mean b_vals,
               s_mean = np_mean s_vals,
               r_std = np_std r_vals, g_std = np_std g_vals, b_std = np_std b_vals\<rparr>
         else zero_stats)"

definition sample_blobs :: "image \<Rightarrow> plane \<Rightarrow> blob list \<Rightarrow> rgb_stats list" where
  "sample_blobs img_bgr S blobs = map (sample_blob img_bgr S) blobs"

text \<open>Truncate or pad to \<open>EXPECTED_COLS\<close>.\<close>

definition pad_or_truncate :: "rgb_stats list \<Rightarrow> rgb_stats list" where
  "pad_or_truncate rgb_data =
     (if EXPECTED_COLS < length rgb_data then take EXPECTED_COLS rgb_data
      else if length rgb_data < EXPECTED_COLS
        then rgb_data @ replicate (EXPECTED_COLS - length rgb_data) zero_stats
      else rgb_data)"

subsection \<open>Calibration fitter\<close>

text \<open>
  \<^verbatim>\<open>np.polyfit(x, y, deg)\<close> around its solve: it rejects an empty \<open>x\<close> and an
  \<open>x\<close> and \<open>y\<close> of different lengths, and divides every column of the Vandermonde
  matrix by its Euclidean norm before solving. A column of norm zero (the columns of
  the powers of an all-zero \<open>x\<close>) becomes NaN, on which the solve raises
  \<^verbatim>\<open>LinAlgError\<close>.
\<close>

definition np_polyfit :: "lstsq \<Rightarrow> real list \<Rightarrow> real list \<Rightarrow> nat \<Rightarrow> error + real list" where
  "np_polyfit lstsq x y deg =
     (if x = [] then Inl (TypeError ''expected non-empty vector for x'')
      else if length x \<noteq> length y
        then Inl (TypeError ''expected x and y to have same length'')
      else
        let scale = map (\<lambda>k. sqrt (sum_list (map (\<lambda>v. (v ^ k)\<^sup>2) x))) (rev [0..<deg + 1])
        in if 0 \<in> set scale then Inl LinAlgError else lstsq x y deg)"

definition fit_and_evaluate :: "lstsq \<Rightarrow> real list \<Rightarrow> real list \<Rightarrow> string \<Rightarrow> error + channel_fit" where
  "fit_and_evaluate lstsq y_vals x_vals channel_name =
     (case np_polyfit lstsq x_vals y_vals 2 of
        Inl e \<Rightarrow> Inl e
      | Inr cs \<Rightarrow>
          (let y_pred = map (poly1d cs) x_vals;
               x_fit = np_linspace (np_min x_vals) (np_max x_vals) 50
           in case np_polyfit lstsq y_vals x_vals 2 of
                Inl e \<Rightarrow> Inl e
              | Inr inv_cs \<Rightarrow>
                  (let pred_conc = map (poly1d inv_cs) y_vals
                   in Inr \<lparr>coeffs = cs,
                           inv_coeffs = inv_cs,
                           r2 = r2_score y_vals y_pred,
                           mae = mean_absolute_error y_vals y_pred,
                           rmse = sqrt (mean_squared_error y_vals y_pred),
                           fit_x = x_fit,
                           fit_y = map (poly1d cs) x_fit,
                           actual_x = x_vals,
                           actual_y = y_vals,
                           predicted_concentration = map (\<lambda>p. np_clip p 0 10) pred_conc\<rparr>)))"

subsection \<open>Result assembler\<close>

text \<open>The report, once the four fits have returned.\<close>

definition build_report ::
  "rgb_stats list \<Rightarrow> channel_fit \<Rightarrow> channel_fit \<Rightarrow> channel_fit \<Rightarrow> channel_fit \<Rightarrow> report" where
  "build_report rgb_data r_fit g_fit b_fit rgb_fit =
     (let rgb_mean = map (\<lambda>d. (r_mean d + g_mean d + b_mean d) / 3) rgb_data
      in \<lparr>color_values =
            map (\<lambda>i. \<lparr>well = i + 1,
                      concentration = CONCENTRATIONS ! i,
                      well_r = r_mean (rgb_data ! i),
                      well_g = g_mean (rgb_data ! i),
                      well_b = b_mean (rgb_data ! i),
                      well_rgb_mean = rgb_mean ! i,
                      well_s_mean = s_mean (rgb_data ! i),
                      pred_from_r = predicted_concentration r_fit ! i,
                      pred_from_g = predicted_concentration g_fit ! i,
                      pred_from_b = predicted_concentration b_fit ! i,
                      pred_from_rgb = predicted_concentration rgb_fit ! i\<rparr>)
              [0..<length rgb_data],
          r_channel = r_fit,
          g_channel = g_fit,
          b_channel = b_fit,
          rgb_mean_channel = rgb_fit,
          trial_metrics = \<lparr>trial_r2 = r2 r_fit, trial_mae = mae r_fit,
                           trial_rmse = rmse r_fit\<rparr>\<rparr>)"

text \<open>The four fits in the order of the source; the first that raises ends the
  analysis.\<close>

definition assemble_report :: "lstsq \<Rightarrow> rgb_stats list \<Rightarrow> error + report" where
  "assemble_report lstsq rgb_data =
     (let x = CONCENTRATIONS;
          r_values = map r_mean rgb_data;
          g_values = map g_mean rgb_data;
          b_values = map b_mean rgb_data;
          rgb_mean = map (\<lambda>d. (r_mean d + g_mean d + b_mean d) / 3) rgb_data
      in case fit_and_evaluate lstsq r_values x ''R'' of
           Inl e \<Rightarrow> Inl e
         | Inr r_fit \<Rightarrow>
             (case fit_and_evaluate lstsq g_values x ''G'' of
                Inl e \<Rightarrow> Inl e
              | Inr g_fit \<Rightarrow>
                  (case fit_and_evaluate lstsq b_values x ''B'' of
                     Inl e \<Rightarrow> Inl e
                   | Inr b_fit \<Rightarrow>
                       (case fit_and_evaluate lstsq rgb_mean x ''RGB_mean'' of
                          Inl e \<Rightarrow> Inl e
                        | Inr rgb_fit \<Rightarrow>
                            Inr (build_report rgb_data r_fit g_fit b_fit rgb_fit)))))"

subsection \<open>The pipeline\<close>

text \<open>Resize for consistency: \<^verbatim>\<open>scale = 800.0 / max(h0, w0)\<close> raises on an empty
  image.\<close>

definition normalize_image :: "'c opencv \<Rightarrow> image \<Rightarrow> error + image" where
  "normalize_image cv img_bgr =
     (let h0 = shape0 img_bgr; w0 = shape1 img_bgr
      in if max h0 w0 = 0 then Inl ZeroDivisionError
         else
           let scale = 800 / real (max h0 w0)
           in if scale < 1 then cv_resize cv img_bgr scale else Inr img_bgr)"

text \<open>Lines 65 to 108: from the image to the ordered blobs, together with the working
  image and its saturation plane, which the sampler reads.\<close>

definition locate_pads :: "'c opencv \<Rightarrow> image \<Rightarrow> error + (image \<times> plane \<times> blob list)" where
  "locate_pads cv img_bgr0 =
     (case normalize_image cv img_bgr0 of
        Inl e \<Rightarrow> Inl e
      | Inr img_bgr \<Rightarrow>
          (case cv_hsv_split cv img_bgr of
             Inl e \<Rightarrow> Inl e
           | Inr (H, S, V) \<Rightarrow>
               (case cv_clean_contours cv (threshold_mask S V) of
                  Inl e \<Rightarrow> Inl e
                | Inr cnts \<Rightarrow>
                    (let blobs = detect_blobs cv cnts
                     in if blobs = [] then Inl (ValueError no_pads_message)
                        else Inr (img_bgr, S, select_blobs blobs)))))"

definition analyze_strip_image :: "'c opencv \<Rightarrow> lstsq \<Rightarrow> image \<Rightarrow> error + report" where
  "analyze_strip_image cv lstsq img_bgr0 =
     (case locate_pads cv img_bgr0 of
        Inl e \<Rightarrow> Inl e
      | Inr (img_bgr, S, blobs) \<Rightarrow>
          (let rgb_data = pad_or_truncate (sample_blobs img_bgr S blobs)
           in assemble_report lstsq rgb_data))"

subsection \<open>Notions of the specification\<close>

text \<open>The absolute deviation of a blob's y-centroid from the median y-centroid of all
  blobs.\<close>

definition y_deviation :: "blob list \<Rightarrow> blob \<Rightarrow> real" where
  "y_deviation blobs b =
     \<bar>real_of_int (blob_y b) - np_median (map (\<lambda>b. real_of_int (blob_y b)) blobs)\<bar>"

text \<open>Circularity, and the retention rule in the specification's words: nonzero
  perimeter, area at least 60, circularity at least 0.3.\<close>

definition circularity :: "real \<Rightarrow> real \<Rightarrow> real" where
  "circularity area peri = 4 * pi * area / peri\<^sup>2"

definition retained_by_spec :: "'c opencv \<Rightarrow> 'c \<Rightarrow> bool" where
  "retained_by_spec cv c \<longleftrightarrow>
     cv_arcLength cv c \<noteq> 0 \<and> 60 \<le> cv_contourArea cv c
     \<and> 3 / 10 \<le> circularity (cv_contourArea cv c) (cv_arcLength cv c)"

definition blob_of :: "'c opencv \<Rightarrow> 'c \<Rightarrow> blob" where
  "blob_of cv c =
     (py_int (fst (fst (cv_minEnclosingCircle cv c))),
      py_int (snd (fst (cv_minEnclosingCircle cv c))),
      py_round (snd (cv_minEnclosingCircle cv c)),
      cv_contourArea cv c,
      circularity (cv_contourArea cv c) (cv_arcLength cv c))"



subsection \<open>Concrete inputs\<close>

text \<open>A 3x3 image of one colour, whose single contour is a pad of area 400 and
  perimeter 80 around the centre.\<close>

definition example_image :: image where
  "example_image = \<lparr>shape0 = 3, shape1 = 3, item = (\<lambda>Y X. (10, 20, 30))\<rparr>"

definition example_plane :: plane where
  "example_plane = \<lparr>shape0 = 3, shape1 = 3, item = (\<lambda>Y X. 200)\<rparr>"

definition example_cv :: "nat opencv" where
  "example_cv =
     \<lparr>cv_resize = (\<lambda>img scale. Inr img),
      cv_hsv_split = (\<lambda>img. Inr (example_plane, example_plane, example_plane)),
      cv_clean_contours = (\<lambda>mask. Inr [0]),
      cv_contourArea = (\<lambda>c. 400),
      cv_arcLength = (\<lambda>c. 80),
      cv_minEnclosingCircle = (\<lambda>c. ((1, 1), 2))\<rparr>"

text \<open>The same image when no contour is found.\<close>

definition blank_cv :: "nat opencv" where
  "blank_cv = example_cv\<lparr>cv_clean_contours := (\<lambda>mask. Inr [])\<rparr>"

text \<open>The same image when the contour found has perimeter zero.\<close>

definition degenerate_cv :: "nat opencv" where
  "degenerate_cv = example_cv\<lparr>cv_arcLength := (\<lambda>c. 0)\<rparr>"

text \<open>The same image with three pads, found in the contour order right, left,
  middle.\<close>

definition three_pad_cv :: "nat opencv" where
  "three_pad_cv =
     example_cv\<lparr>cv_clean_contours := (\<lambda>mask. Inr [0, 1, 2]),
                cv_minEnclosingCircle := (\<lambda>c. ((real ((c + 2) mod 3), 1), 2))\<rparr>"

text \<open>An image of pure green, (B, G, R) = (0, 255, 0): its red channel is zero in
  every well.\<close>

definition green_image :: image where
  "green_image = \<lparr>shape0 = 3, shape1 = 3, item = (\<lambda>Y X. (0, 255, 0))\<rparr>"

definition zero_channel :: "real list" where
  "zero_channel = replicate 11 0"

text \<open>A solve that returns the quadratic \<open>x\<^sup>2 + 2 x + 3\<close>, and the channel values
  that lie on it at the reference concentrations.\<close>

definition example_polyfit :: lstsq where
  "example_polyfit x y deg = Inr [1, 2, 3]"




text \<open>A blob far outside the 3x3 image, and thirteen blobs of one row, one of them
  (the fifth) far below it.\<close>

definition outside_blob :: blob where
  "outside_blob = (100, 100, 3, 400, 1 / 2)"


section \<open>Properties\<close>

subsection \<open>Lists, sorting and the median\<close>

lemma length_sample_blobs: "length (sample_blobs img S blobs) = length blobs"
  by (simp add: sample_blobs_def)

lemma length_pad_or_truncate: "length (pad_or_truncate rgb_data) = EXPECTED_COLS"
  by (simp add: pad_or_truncate_def)

lemma pad_or_truncate_short:
  "length rgb_data \<le> EXPECTED_COLS \<Longrightarrow>
     pad_or_truncate rgb_data
       = rgb_data @ replicate (EXPECTED_COLS - length rgb_data) zero_stats"
  by (simp add: pad_or_truncate_def)

lemma sorted_select_blobs: "sorted (map blob_x (select_blobs blobs))"
  by (simp add: select_blobs_def Let_def)

lemma length_select_blobs: "length (select_blobs blobs) \<le> EXPECTED_COLS"
  by (simp add: select_blobs_def Let_def)

lemma np_median_perm:
  assumes "mset xs = mset ys"
  shows "np_median xs = np_median ys"
proof -
  from assms have "sort xs = sort ys"
    by (metis mset_sort properties_for_sort sorted_sort)
  then show ?thesis by (simp add: np_median_def)
qed

lemma select_blobs_large:
  assumes "EXPECTED_COLS < length blobs"
  shows "select_blobs blobs =
    sort_key blob_x (take EXPECTED_COLS (sort_key (y_deviation blobs) (sort_key blob_x blobs)))"
proof -
  have "np_median (map (\<lambda>b. real_of_int (blob_y b)) (sort_key blob_x blobs))
      = np_median (map (\<lambda>b. real_of_int (blob_y b)) blobs)"
    by (rule np_median_perm) simp
  then have "(\<lambda>b. \<bar>real_of_int (blob_y b)
        - np_median (map (\<lambda>b. real_of_int (blob_y b)) (sort_key blob_x blobs))\<bar>)
      = y_deviation blobs"
    by (simp add: y_deviation_def fun_eq_iff)
  with assms show ?thesis
    by (simp add: select_blobs_def Let_def)
qed

lemma select_blobs_small:
  "length blobs \<le> EXPECTED_COLS \<Longrightarrow> select_blobs blobs = sort_key blob_x blobs"
  by (simp add: select_blobs_def Let_def)

lemma take_drop_sorted_key:
  assumes "sorted (map f l)" and "a \<in> set (take n l)" and "b \<in> set (drop n l)"
  shows "f a \<le> f b"
proof -
  have "sorted (map f (take n l) @ map f (drop n l))"
    using assms(1) by (metis append_take_drop_id map_append)
  then show ?thesis
    using assms(2,3) by (auto simp: sorted_append)
qed

lemma select_blobs_closest:
  assumes "EXPECTED_COLS < length blobs"
  shows "length (select_blobs blobs) = EXPECTED_COLS"
    and "mset (select_blobs blobs) \<subseteq># mset blobs"
    and "\<forall>k \<in># mset (select_blobs blobs). \<forall>d \<in># mset blobs - mset (select_blobs blobs).
           y_deviation blobs k \<le> y_deviation blobs d"
proof -
  define l where "l = sort_key (y_deviation blobs) (sort_key blob_x blobs)"
  have sel: "select_blobs blobs = sort_key blob_x (take EXPECTED_COLS l)"
    using assms by (simp add: select_blobs_large l_def)
  have len: "length l = length blobs" by (simp add: l_def)
  have ml: "mset blobs = mset (take EXPECTED_COLS l) + mset (drop EXPECTED_COLS l)"
    by (metis append_take_drop_id l_def mset_append mset_sort)
  have msel: "mset (select_blobs blobs) = mset (take EXPECTED_COLS l)"
    by (simp add: sel)
  show "length (select_blobs blobs) = EXPECTED_COLS"
    using assms len by (simp add: sel)
  show "mset (select_blobs blobs) \<subseteq># mset blobs"
    by (simp add: msel ml)
  have diff: "mset blobs - mset (select_blobs blobs) = mset (drop EXPECTED_COLS l)"
    by (simp add: msel ml)
  have srt: "sorted (map (y_deviation blobs) l)"
    by (simp add: l_def)
  show "\<forall>k \<in># mset (select_blobs blobs). \<forall>d \<in># mset blobs - mset (select_blobs blobs).
           y_deviation blobs k \<le> y_deviation blobs d"
  proof (intro ballI)
    fix k d
    assume "k \<in># mset (select_blobs blobs)"
      and "d \<in># mset blobs - mset (select_blobs blobs)"
    then have "k \<in># mset (take EXPECTED_COLS l)" and "d \<in># mset (drop EXPECTED_COLS l)"
      unfolding diff by (simp_all only: msel)
    then have "k \<in> set (take EXPECTED_COLS l)" and "d \<in> set (drop EXPECTED_COLS l)"
      by simp_all
    then show "y_deviation blobs k \<le> y_deviation blobs d"
      by (rule take_drop_sorted_key [OF srt])
  qed
qed

subsection \<open>The pipeline, step by step\<close>

lemma locate_pads_Inr:
  assumes "locate_pads cv img0 = Inr (img, S, blobs)"
  shows "\<exists>H V cnts. normalize_image cv img0 = Inr img
           \<and> cv_hsv_split cv img = Inr (H, S, V)
           \<and> cv_clean_contours cv (threshold_mask S V) = Inr cnts
           \<and> detect_blobs cv cnts \<noteq> []
           \<and> blobs = select_blobs (detect_blobs cv cnts)"
  using assms
  by (auto simp: locate_pads_def Let_def split: sum.splits prod.splits if_splits)

lemma analyze_Inr:
  assumes "analyze_strip_image cv lstsq img0 = Inr rep"
  shows "\<exists>img S blobs. locate_pads cv img0 = Inr (img, S, blobs)
           \<and> assemble_report lstsq (pad_or_truncate (sample_blobs img S blobs)) = Inr rep"
  using assms
  by (auto simp: analyze_strip_image_def Let_def split: sum.splits prod.splits)

lemma located_blobs_sorted:
  assumes "locate_pads cv img0 = Inr (img, S, blobs)"
  shows "sorted (map blob_x blobs)" and "length blobs \<le> EXPECTED_COLS"
  using locate_pads_Inr [OF assms] sorted_select_blobs length_select_blobs by auto

lemma np_clip_bounds: "0 \<le> np_clip p 0 10 \<and> np_clip p 0 10 \<le> 10"
  by (simp add: np_clip_def)

lemma np_polyfit_Inr:
  assumes "np_polyfit lstsq x y deg = Inr cs"
  shows "lstsq x y deg = Inr cs" and "x \<noteq> []" and "length x = length y"
  using assms by (auto simp: np_polyfit_def Let_def split: if_splits)

lemma fit_and_evaluate_Inr:
  assumes "fit_and_evaluate lstsq y_vals x_vals name = Inr fit"
  shows "\<exists>cs inv_cs.
           np_polyfit lstsq x_vals y_vals 2 = Inr cs
         \<and> np_polyfit lstsq y_vals x_vals 2 = Inr inv_cs
         \<and> coeffs fit = cs
         \<and> r2 fit = r2_score y_vals (map (poly1d cs) x_vals)
         \<and> actual_y fit = y_vals
         \<and> predicted_concentration fit
             = map (\<lambda>y. np_clip (poly1d inv_cs y) 0 10) y_vals"
  using assms
  by (auto simp: fit_and_evaluate_def Let_def split: sum.splits)

lemma predicted_concentration_bounds:
  assumes "fit_and_evaluate lstsq y_vals x_vals name = Inr fit"
    and "p \<in> set (predicted_concentration fit)"
  shows "0 \<le> p \<and> p \<le> 10"
  using fit_and_evaluate_Inr [OF assms(1)] assms(2) np_clip_bounds by auto

lemma predicted_concentration_length:
  assumes "fit_and_evaluate lstsq y_vals x_vals name = Inr fit"
  shows "length (predicted_concentration fit) = length y_vals"
  using fit_and_evaluate_Inr [OF assms] by auto

lemma assemble_report_Inr:
  assumes "assemble_report lstsq d = Inr rep"
  shows "\<exists>r_fit g_fit b_fit rgb_fit.
           fit_and_evaluate lstsq (map r_mean d) CONCENTRATIONS ''R'' = Inr r_fit
         \<and> fit_and_evaluate lstsq (map g_mean d) CONCENTRATIONS ''G'' = Inr g_fit
         \<and> fit_and_evaluate lstsq (map b_mean d) CONCENTRATIONS ''B'' = Inr b_fit
         \<and> fit_and_evaluate lstsq (map (\<lambda>d. (r_mean d + g_mean d + b_mean d) / 3) d)
               CONCENTRATIONS ''RGB_mean'' = Inr rgb_fit
         \<and> rep = build_report d r_fit g_fit b_fit rgb_fit"
  using assms
  by (auto simp: assemble_report_def Let_def split: sum.splits)

lemma channels_build_report:
  "r_channel (build_report d r_fit g_fit b_fit rgb_fit) = r_fit"
  "g_channel (build_report d r_fit g_fit b_fit rgb_fit) = g_fit"
  "b_channel (build_report d r_fit g_fit b_fit rgb_fit) = b_fit"
  "rgb_mean_channel (build_report d r_fit g_fit b_fit rgb_fit) = rgb_fit"
  by (simp_all add: build_report_def Let_def)

lemma length_color_values:
  "length (color_values (build_report d r_fit g_fit b_fit rgb_fit)) = length d"
  by (simp add: build_report_def Let_def)

lemma color_values_nth:
  assumes "i < length d"
  shows "color_values (build_report d r_fit g_fit b_fit rgb_fit) ! i =
     \<lparr>well = i + 1,
      concentration = CONCENTRATIONS ! i,
      well_r = r_mean (d ! i),
      well_g = g_mean (d ! i),
      well_b = b_mean (d ! i),
      well_rgb_mean = (r_mean (d ! i) + g_mean (d ! i) + b_mean (d ! i)) / 3,
      well_s_mean = s_mean (d ! i),
      pred_from_r = predicted_concentration r_fit ! i,
      pred_from_g = predicted_concentration g_fit ! i,
      pred_from_b = predicted_concentration b_fit ! i,
      pred_from_rgb = predicted_concentration rgb_fit ! i\<rparr>"
  using assms by (simp add: build_report_def Let_def)

lemma assemble_report_length:
  assumes "assemble_report lstsq d = Inr rep"
  shows "length (color_values rep) = length d"
  using assemble_report_Inr [OF assms] by (auto simp: length_color_values)

lemma assemble_report_bounds:
  assumes "assemble_report lstsq d = Inr rep"
  shows "\<forall>fit \<in> {r_channel rep, g_channel rep, b_channel rep, rgb_mean_channel rep}.
            \<forall>p \<in> set (predicted_concentration fit). 0 \<le> p \<and> p \<le> 10"
    and "\<forall>w \<in> set (color_values rep).
            \<forall>p \<in> {pred_from_r w, pred_from_g w, pred_from_b w, pred_from_rgb w}.
              0 \<le> p \<and> p \<le> 10"
proof -
  from assemble_report_Inr [OF assms] obtain r_fit g_fit b_fit rgb_fit
    where r: "fit_and_evaluate lstsq (map r_mean d) CONCENTRATIONS ''R'' = Inr r_fit"
      and g: "fit_and_evaluate lstsq (map g_mean d) CONCENTRATIONS ''G'' = Inr g_fit"
      and b: "fit_and_evaluate lstsq (map b_mean d) CONCENTRATIONS ''B'' = Inr b_fit"
      and m: "fit_and_evaluate lstsq (map (\<lambda>d. (r_mean d + g_mean d + b_mean d) / 3) d)
               CONCENTRATIONS ''RGB_mean'' = Inr rgb_fit"
      and rep: "rep = build_report d r_fit g_fit b_fit rgb_fit"
    by blast
  note bounds = predicted_concentration_bounds [OF r] predicted_concentration_bounds [OF g]
    predicted_concentration_bounds [OF b] predicted_concentration_bounds [OF m]
  show fits: "\<forall>fit \<in> {r_channel rep, g_channel rep, b_channel rep, rgb_mean_channel rep}.
            \<forall>p \<in> set (predicted_concentration fit). 0 \<le> p \<and> p \<le> 10"
    unfolding rep channels_build_report using bounds by blast
  have len: "length (predicted_concentration r_fit) = length d"
    "length (predicted_concentration g_fit) = length d"
    "length (predicted_concentration b_fit) = length d"
    "length (predicted_concentration rgb_fit) = length d"
    using predicted_concentration_length [OF r] predicted_concentration_length [OF g]
      predicted_concentration_length [OF b] predicted_concentration_length [OF m]
    by simp_all
  show "\<forall>w \<in> set (color_values rep).
            \<forall>p \<in> {pred_from_r w, pred_from_g w, pred_from_b w, pred_from_rgb w}.
              0 \<le> p \<and> p \<le> 10"
  proof
    fix w assume "w \<in> set (color_values rep)"
    then obtain i where i: "i < length d" and w: "w = color_values rep ! i"
      by (metis in_set_conv_nth length_color_values rep)
    have "predicted_concentration r_fit ! i \<in> set (predicted_concentration r_fit)"
      "predicted_concentration g_fit ! i \<in> set (predicted_concentration g_fit)"
      "predicted_concentration b_fit ! i \<in> set (predicted_concentration b_fit)"
      "predicted_concentration rgb_fit ! i \<in> set (predicted_concentration rgb_fit)"
      using i len by simp_all
    then show "\<forall>p \<in> {pred_from_r w, pred_from_g w, pred_from_b w, pred_from_rgb w}.
              0 \<le> p \<and> p \<le> 10"
      unfolding w rep color_values_nth [OF i] using bounds by simp
  qed
qed

subsection \<open>When the fits return\<close>

lemma sum_list_squares_zero:
  "sum_list (map (\<lambda>v. (v ^ k)\<^sup>2) x) = 0 \<longleftrightarrow> (\<forall>v \<in> set x. v ^ k = 0)"
  for x :: "real list"
proof -
  have "sum_list (map (\<lambda>v. (v ^ k)\<^sup>2) x) = 0
      \<longleftrightarrow> (\<forall>s \<in> set (map (\<lambda>v. (v ^ k)\<^sup>2) x). s = 0)"
    by (rule sum_list_nonneg_eq_0_iff) auto
  then show ?thesis by simp
qed

lemma np_polyfit_2:
  assumes "x \<noteq> []" and "length x = length y"
  shows "np_polyfit lstsq x y 2
           = (if \<forall>v \<in> set x. v = 0 then Inl LinAlgError else lstsq x y 2)"
proof -
  define norm where "norm = (\<lambda>k. sqrt (sum_list (map (\<lambda>v. (v ^ k)\<^sup>2) x)))"
  have norm: "norm k = 0 \<longleftrightarrow> (\<forall>v \<in> set x. v ^ k = 0)" for k
    by (simp add: norm_def sum_list_squares_zero)
  from assms(1) obtain v where v: "v \<in> set x"
    by (cases x) auto
  have powers: "rev [0..<2 + 1] = [2, 1, 0::nat]"
    by (simp add: upt_rec)
  have "0 \<in> set (map norm (rev [0..<2 + 1])) \<longleftrightarrow> norm 2 = 0 \<or> norm 1 = 0 \<or> norm 0 = 0"
    unfolding powers by auto
  also have "\<dots> \<longleftrightarrow> (\<forall>v \<in> set x. v = 0)"
    using v by (auto simp: norm)
  finally have "0 \<in> set (map norm (rev [0..<2 + 1])) \<longleftrightarrow> (\<forall>v \<in> set x. v = 0)" .
  then show ?thesis
    unfolding np_polyfit_def Let_def norm_def using assms by simp
qed

lemma fit_and_evaluate_returns:
  assumes "\<forall>x y. \<exists>cs. lstsq x y 2 = Inr cs"
    and "length y_vals = length x_vals"
    and "\<exists>v \<in> set x_vals. v \<noteq> 0" and "\<exists>v \<in> set y_vals. v \<noteq> 0"
  shows "\<exists>fit. fit_and_evaluate lstsq y_vals x_vals name = Inr fit"
proof -
  from assms(2-4) have ne: "x_vals \<noteq> []" "y_vals \<noteq> []"
    by auto
  from assms(1) obtain cs inv_cs
    where "lstsq x_vals y_vals 2 = Inr cs" and "lstsq y_vals x_vals 2 = Inr inv_cs"
    by blast
  with assms(2-4) ne show ?thesis
    by (simp add: fit_and_evaluate_def np_polyfit_2 Let_def)
qed

lemma assemble_report_returns:
  assumes "\<forall>x y. \<exists>cs. lstsq x y 2 = Inr cs"
    and "length d = 11"
    and "\<exists>s \<in> set d. r_mean s \<noteq> 0" and "\<exists>s \<in> set d. g_mean s \<noteq> 0"
    and "\<exists>s \<in> set d. b_mean s \<noteq> 0"
    and "\<exists>s \<in> set d. r_mean s + g_mean s + b_mean s \<noteq> 0"
  shows "\<exists>rep. assemble_report lstsq d = Inr rep"
proof -
  have x: "\<exists>v \<in> set CONCENTRATIONS. v \<noteq> 0" and lx: "length CONCENTRATIONS = 11"
    by (simp_all add: CONCENTRATIONS_def)
  have fit: "\<exists>fit. fit_and_evaluate lstsq (map f d) CONCENTRATIONS name = Inr fit"
    if "\<exists>s \<in> set d. f s \<noteq> 0" for f name
    using assms(1) _ x
  proof (rule fit_and_evaluate_returns)
    show "length (map f d) = length CONCENTRATIONS"
      using assms(2) lx by simp
    show "\<exists>v \<in> set (map f d). v \<noteq> 0"
      using that by auto
  qed
  obtain r_fit where r: "fit_and_evaluate lstsq (map r_mean d) CONCENTRATIONS ''R'' = Inr r_fit"
    using fit [of r_mean] assms(3) by blast
  obtain g_fit where g: "fit_and_evaluate lstsq (map g_mean d) CONCENTRATIONS ''G'' = Inr g_fit"
    using fit [of g_mean] assms(4) by blast
  obtain b_fit where b: "fit_and_evaluate lstsq (map b_mean d) CONCENTRATIONS ''B'' = Inr b_fit"
    using fit [of b_mean] assms(5) by blast
  obtain rgb_fit
    where m: "fit_and_evaluate lstsq (map (\<lambda>d. (r_mean d + g_mean d + b_mean d) / 3) d)
               CONCENTRATIONS ''RGB_mean'' = Inr rgb_fit"
    using fit [of "\<lambda>d. (r_mean d + g_mean d + b_mean d) / 3"] assms(6) by auto
  from r g b m show ?thesis
    by (simp add: assemble_report_def Let_def)
qed

subsection \<open>The concrete inputs evaluated\<close>

lemma example_quarter_pi: "3 / 10 \<le> pi / 4"
  using pi_ge_two by simp

lemma example_detect: "detect_blobs example_cv [0] = [(1, 1, 2, 400, pi / 4)]"
  using example_quarter_pi
  by (simp add: example_cv_def Let_def MIN_BLOB_AREA_def py_int_def py_round_def)

lemma three_pad_detect:
  "detect_blobs three_pad_cv [0, 1, 2]
     = [(2, 1, 2, 400, pi / 4), (0, 1, 2, 400, pi / 4), (1, 1, 2, 400, pi / 4)]"
  using example_quarter_pi
  by (simp add: three_pad_cv_def example_cv_def Let_def MIN_BLOB_AREA_def py_int_def
        py_round_def)

lemma select_blobs_single: "select_blobs [b] = [b]"
  by (simp add: select_blobs_def Let_def EXPECTED_COLS_def)

lemma three_pad_select:
  "select_blobs [(2, 1, 2, 400, pi / 4), (0, 1, 2, 400, pi / 4), (1, 1, 2, 400, pi / 4)]
     = [(0, 1, 2, 400, pi / 4), (1, 1, 2, 400, pi / 4), (2, 1, 2, 400, pi / 4)]"
  by (simp add: select_blobs_def Let_def EXPECTED_COLS_def blob_x_def)

lemma example_normalize: "normalize_image cv example_image = Inr example_image"
  by (simp add: normalize_image_def example_image_def Let_def)

lemma example_locate:
  "locate_pads example_cv example_image
     = Inr (example_image, example_plane, [(1, 1, 2, 400, pi / 4)])"
proof -
  have h: "cv_hsv_split example_cv example_image
             = Inr (example_plane, example_plane, example_plane)"
    by (simp add: example_cv_def)
  have c: "cv_clean_contours example_cv (threshold_mask example_plane example_plane) = Inr [0]"
    by (simp add: example_cv_def)
  show ?thesis
    by (simp add: locate_pads_def example_normalize h c example_detect select_blobs_single
          del: detect_blobs.simps)
qed

lemma three_pad_locate:
  "locate_pads three_pad_cv example_image
     = Inr (example_image, example_plane,
         [(0, 1, 2, 400, pi / 4), (1, 1, 2, 400, pi / 4), (2, 1, 2, 400, pi / 4)])"
proof -
  have h: "cv_hsv_split three_pad_cv example_image
             = Inr (example_plane, example_plane, example_plane)"
    by (simp add: three_pad_cv_def example_cv_def)
  have c: "cv_clean_contours three_pad_cv (threshold_mask example_plane example_plane)
             = Inr [0, 1, 2]"
    by (simp add: three_pad_cv_def)
  show ?thesis
    by (simp only: locate_pads_def example_normalize h c sum.case prod.case Let_def
          three_pad_detect three_pad_select list.distinct if_False)
qed

lemma np_mean_same:
  assumes "sel \<noteq> []"
  shows "np_mean (map (\<lambda>p. c) sel) = c"
  using assms by (simp add: np_mean_def sum_list_triv)

lemma np_std_same:
  assumes "sel \<noteq> []"
  shows "np_std (map (\<lambda>p. c) sel) = 0"
  using assms by (simp add: np_std_def Let_def np_mean_same o_def)

lemma sample_radius_2: "sample_radius 2 = 1"
  by (simp add: sample_radius_def py_int_def)

lemma example_masks:
  "mask_circle 3 3 0 1 1 \<noteq> []" "mask_circle 3 3 1 1 1 \<noteq> []" "mask_circle 3 3 2 1 1 \<noteq> []"
  by code_simp+

lemma example_sample:
  assumes "cx \<in> {0, 1, 2}"
  shows "sample_blob example_image example_plane (cx, 1, 2, area, circ)
     = \<lparr>r_mean = 30, g_mean = 20, b_mean = 10, s_mean = 200,
        r_std = 0, g_std = 0, b_std = 0\<rparr>"
proof -
  from assms have "mask_circle 3 3 cx 1 1 \<noteq> []"
    using example_masks by auto
  then show ?thesis
    by (simp add: sample_blob_def Let_def blob_x_def blob_y_def blob_r_def sample_radius_2
          example_image_def example_plane_def u8_def case_prod_unfold np_mean_same np_std_same)
qed

lemma example_report_returns:
  assumes "blobs = (cx, 1, 2, area, circ) # rest" and "cx \<in> {0, 1, 2}"
    and "length blobs \<le> 11"
  shows "\<exists>rep. assemble_report example_polyfit
           (pad_or_truncate (sample_blobs example_image example_plane blobs)) = Inr rep"
proof -
  let ?d = "pad_or_truncate (sample_blobs example_image example_plane blobs)"
  let ?s = "\<lparr>r_mean = 30, g_mean = 20, b_mean = 10, s_mean = 200,
        r_std = 0, g_std = 0, b_std = 0\<rparr>"
  have "?d = sample_blobs example_image example_plane blobs
               @ replicate (EXPECTED_COLS - length blobs) zero_stats"
    using assms(3) by (simp add: pad_or_truncate_short length_sample_blobs EXPECTED_COLS_def)
  then have "?s \<in> set ?d"
    using assms(1,2) example_sample [OF assms(2)] by (simp add: sample_blobs_def)
  then have nz: "\<exists>s \<in> set ?d. r_mean s \<noteq> 0" "\<exists>s \<in> set ?d. g_mean s \<noteq> 0"
    "\<exists>s \<in> set ?d. b_mean s \<noteq> 0" "\<exists>s \<in> set ?d. r_mean s + g_mean s + b_mean s \<noteq> 0"
    by (auto intro!: bexI [of _ ?s])
  have len: "length ?d = 11"
    by (simp add: length_pad_or_truncate EXPECTED_COLS_def)
  have tot: "\<forall>x y. \<exists>cs. example_polyfit x y 2 = Inr cs"
    by (simp add: example_polyfit_def)
  from tot len nz show ?thesis
    by (rule assemble_report_returns)
qed

lemma example_analyze:
  "\<exists>rep. analyze_strip_image example_cv example_polyfit example_image = Inr rep"
  using example_report_returns [of "[(1, 1, 2, 400, pi / 4)]" 1 400 "pi / 4" "[]"]
  by (simp add: analyze_strip_image_def example_locate)

lemma three_pad_analyze:
  "\<exists>rep. analyze_strip_image three_pad_cv example_polyfit example_image = Inr rep"
  using example_report_returns
    [of "[(0, 1, 2, 400, pi / 4), (1, 1, 2, 400, pi / 4), (2, 1, 2, 400, pi / 4)]"
        0 400 "pi / 4" "[(1, 1, 2, 400, pi / 4), (2, 1, 2, 400, pi / 4)]"]
  by (simp add: analyze_strip_image_def three_pad_locate)

subsection \<open>Clamped predictions\<close>

text \<open>
  C1. Whenever the analysis succeeds, every predicted concentration of the report lies
  in the closed interval from 0 to 10: the entries of the predicted-concentration list
  of each of the four channel fits (red, green, blue, RGB mean), and the four
  prediction fields of every well record. This holds whatever coefficients the inverse
  fit returns, since the value of the inverse polynomial is clipped before it is
  reported.
\<close>

theorem predicted_concentrations_clamped:
  assumes "analyze_strip_image cv lstsq img = Inr rep"
  shows "(\<forall>fit \<in> {r_channel rep, g_channel rep, b_channel rep, rgb_mean_channel rep}.
            \<forall>p \<in> set (predicted_concentration fit). 0 \<le> p \<and> p \<le> 10)
       \<and> (\<forall>w \<in> set (color_values rep).
            \<forall>p \<in> {pred_from_r w, pred_from_g w, pred_from_b w, pred_from_rgb w}.
              0 \<le> p \<and> p \<le> 10)"
proof -
  from analyze_Inr [OF assms] obtain d where rep: "assemble_report lstsq d = Inr rep"
    by blast
  from assemble_report_bounds [OF rep] show ?thesis
    by (rule conjI)
qed

theorem predicted_concentrations_clamped_witness:
  "\<exists>rep. analyze_strip_image example_cv example_polyfit example_image = Inr rep
     \<and> (\<forall>fit \<in> {r_channel rep, g_channel rep, b_channel rep, rgb_mean_channel rep}.
            \<forall>p \<in> set (predicted_concentration fit). 0 \<le> p \<and> p \<le> 10)
     \<and> (\<forall>w \<in> set (color_values rep).
            \<forall>p \<in> {pred_from_r w, pred_from_g w, pred_from_b w, pred_from_rgb w}.
              0 \<le> p \<and> p \<le> 10)"
proof -
  from example_analyze obtain rep
    where run: "analyze_strip_image example_cv example_polyfit example_image = Inr rep"
    by blast
  from predicted_concentrations_clamped [OF run] run show ?thesis
    by blast
qed

subsection \<open>Eleven wells\<close>

text \<open>
  C2. Whenever the analysis succeeds, the ordered well sequence of the report
  (\<open>color_values\<close>) has exactly 11 entries, however many blobs were detected: the
  pad-or-truncate step turns a colour-statistics list of any length into one of
  length 11, by appending all-zero records to a shorter list and cutting a longer one
  after its first 11 entries.
\<close>

theorem report_has_eleven_wells:
  assumes "analyze_strip_image cv lstsq img = Inr rep"
  shows "length (color_values rep) = 11
       \<and> length (pad_or_truncate rgb_data) = 11
       \<and> pad_or_truncate rgb_data
           = take 11 (rgb_data @ replicate (11 - length rgb_data) zero_stats)"
proof -
  from analyze_Inr [OF assms] obtain d
    where "assemble_report lstsq (pad_or_truncate d) = Inr rep"
    by blast
  then have "length (color_values rep) = 11"
    by (simp add: assemble_report_length length_pad_or_truncate EXPECTED_COLS_def)
  moreover have "pad_or_truncate rgb_data
           = take 11 (rgb_data @ replicate (11 - length rgb_data) zero_stats)"
    by (simp add: pad_or_truncate_def EXPECTED_COLS_def)
  ultimately show ?thesis
    by (simp add: length_pad_or_truncate EXPECTED_COLS_def)
qed

theorem report_has_eleven_wells_witness:
  "\<exists>rep. analyze_strip_image example_cv example_polyfit example_image = Inr rep
     \<and> length (color_values rep) = 11
     \<and> pad_or_truncate [] = replicate 11 zero_stats"
proof -
  from example_analyze obtain rep
    where run: "analyze_strip_image example_cv example_polyfit example_image = Inr rep"
    by blast
  from report_has_eleven_wells [OF run, of "[]"] run show ?thesis
    by auto
qed

subsection \<open>Left-to-right order\<close>

lemma select_blobs_keeps:
  "mset (select_blobs blobs) \<subseteq># mset blobs"
  "length (select_blobs blobs) = min EXPECTED_COLS (length blobs)"
proof -
  show "mset (select_blobs blobs) \<subseteq># mset blobs"
  proof (cases "EXPECTED_COLS < length blobs")
    case True
    then show ?thesis by (rule select_blobs_closest)
  next
    case False
    then show ?thesis by (simp add: select_blobs_small)
  qed
  show "length (select_blobs blobs) = min EXPECTED_COLS (length blobs)"
  proof (cases "EXPECTED_COLS < length blobs")
    case True
    then show ?thesis using select_blobs_closest(1) [OF True] by simp
  next
    case False
    then show ?thesis by (simp add: select_blobs_small)
  qed
qed

text \<open>
  C3. Whenever the analysis succeeds, the wells are ordered by non-decreasing
  x-centroid. The blobs behind the wells are detected blobs, all of them when at most
  11 were detected and 11 of them otherwise, and at least one; the x-centroid of each
  is at most that of the next; and the i-th well record of the report has index i + 1
  and carries the colour statistics sampled at the i-th of these blobs. (The wells
  beyond the last blob are the zero-valued placeholders, which have no centroid.)
\<close>

theorem wells_ordered_left_to_right:
  assumes "analyze_strip_image cv lstsq img0 = Inr rep"
  shows "\<exists>img H S V cnts blobs.
           locate_pads cv img0 = Inr (img, S, blobs)
         \<and> cv_hsv_split cv img = Inr (H, S, V)
         \<and> cv_clean_contours cv (threshold_mask S V) = Inr cnts
         \<and> mset blobs \<subseteq># mset (detect_blobs cv cnts)
         \<and> length blobs = min 11 (length (detect_blobs cv cnts))
         \<and> blobs \<noteq> []
         \<and> sorted (map blob_x blobs)
         \<and> (\<forall>i. Suc i < length blobs \<longrightarrow> blob_x (blobs ! i) \<le> blob_x (blobs ! Suc i))
         \<and> length blobs \<le> length (color_values rep)
         \<and> (\<forall>i < length blobs.
               well (color_values rep ! i) = i + 1
             \<and> well_r (color_values rep ! i) = r_mean (sample_blob img S (blobs ! i))
             \<and> well_g (color_values rep ! i) = g_mean (sample_blob img S (blobs ! i))
             \<and> well_b (color_values rep ! i) = b_mean (sample_blob img S (blobs ! i))
             \<and> well_s_mean (color_values rep ! i) = s_mean (sample_blob img S (blobs ! i)))"
proof -
  from analyze_Inr [OF assms] obtain img S blobs
    where loc: "locate_pads cv img0 = Inr (img, S, blobs)"
      and rep: "assemble_report lstsq (pad_or_truncate (sample_blobs img S blobs)) = Inr rep"
    by blast
  from locate_pads_Inr [OF loc] obtain H V cnts
    where hsv: "cv_hsv_split cv img = Inr (H, S, V)"
      and cnts: "cv_clean_contours cv (threshold_mask S V) = Inr cnts"
      and det: "detect_blobs cv cnts \<noteq> []"
      and sel: "blobs = select_blobs (detect_blobs cv cnts)"
    by blast
  let ?d = "sample_blobs img S blobs"
  have sub: "mset blobs \<subseteq># mset (detect_blobs cv cnts)"
    and count: "length blobs = min 11 (length (detect_blobs cv cnts))"
    unfolding sel using select_blobs_keeps [of "detect_blobs cv cnts"]
    by (simp_all add: EXPECTED_COLS_def)
  from count det have ne: "blobs \<noteq> []"
    by (cases "detect_blobs cv cnts") auto
  have srt: "sorted (map blob_x blobs)" and len: "length blobs \<le> EXPECTED_COLS"
    using located_blobs_sorted [OF loc] by simp_all
  have adj: "\<forall>i. Suc i < length blobs \<longrightarrow> blob_x (blobs ! i) \<le> blob_x (blobs ! Suc i)"
  proof (intro allI impI)
    fix i assume i: "Suc i < length blobs"
    have "map blob_x blobs ! i \<le> map blob_x blobs ! Suc i"
      using srt i by (intro sorted_nth_mono) simp_all
    with i show "blob_x (blobs ! i) \<le> blob_x (blobs ! Suc i)" by simp
  qed
  have pad: "pad_or_truncate ?d = ?d @ replicate (EXPECTED_COLS - length ?d) zero_stats"
    using len by (simp add: pad_or_truncate_short length_sample_blobs)
  have lenrep: "length (color_values rep) = EXPECTED_COLS"
    using assemble_report_length [OF rep] by (simp add: length_pad_or_truncate)
  from assemble_report_Inr [OF rep] obtain r_fit g_fit b_fit rgb_fit
    where built: "rep = build_report (pad_or_truncate ?d) r_fit g_fit b_fit rgb_fit"
    by blast
  have wells: "\<forall>i < length blobs.
               well (color_values rep ! i) = i + 1
             \<and> well_r (color_values rep ! i) = r_mean (sample_blob img S (blobs ! i))
             \<and> well_g (color_values rep ! i) = g_mean (sample_blob img S (blobs ! i))
             \<and> well_b (color_values rep ! i) = b_mean (sample_blob img S (blobs ! i))
             \<and> well_s_mean (color_values rep ! i) = s_mean (sample_blob img S (blobs ! i))"
  proof (intro allI impI)
    fix i assume i: "i < length blobs"
    then have i': "i < length (pad_or_truncate ?d)"
      using len by (simp add: length_pad_or_truncate)
    have nth: "pad_or_truncate ?d ! i = sample_blob img S (blobs ! i)"
      using i by (simp add: pad nth_append length_sample_blobs) (simp add: sample_blobs_def)
    show "well (color_values rep ! i) = i + 1
             \<and> well_r (color_values rep ! i) = r_mean (sample_blob img S (blobs ! i))
             \<and> well_g (color_values rep ! i) = g_mean (sample_blob img S (blobs ! i))
             \<and> well_b (color_values rep ! i) = b_mean (sample_blob img S (blobs ! i))
             \<and> well_s_mean (color_values rep ! i) = s_mean (sample_blob img S (blobs ! i))"
      unfolding built color_values_nth [OF i'] by (simp add: nth)
  qed
  from loc hsv cnts sub count ne srt adj len lenrep wells show ?thesis
    by (intro exI [of _ img] exI [of _ H] exI [of _ S] exI [of _ V] exI [of _ cnts]
          exI [of _ blobs]) simp
qed

theorem wells_ordered_left_to_right_witness:
  "\<exists>rep. analyze_strip_image three_pad_cv example_polyfit example_image = Inr rep
     \<and> detect_blobs three_pad_cv [0, 1, 2]
         = [(2, 1, 2, 400, pi / 4), (0, 1, 2, 400, pi / 4), (1, 1, 2, 400, pi / 4)]
     \<and> locate_pads three_pad_cv example_image
         = Inr (example_image, example_plane,
             [(0, 1, 2, 400, pi / 4), (1, 1, 2, 400, pi / 4), (2, 1, 2, 400, pi / 4)])
     \<and> blob_x (0, 1, 2, 400, pi / 4) \<le> blob_x (1, 1, 2, 400, pi / 4)
     \<and> blob_x (1, 1, 2, 400, pi / 4) \<le> blob_x (2, 1, 2, 400, pi / 4)
     \<and> well (color_values rep ! 2) = 3
     \<and> well_r (color_values rep ! 2)
         = r_mean (sample_blob example_image example_plane (2, 1, 2, 400, pi / 4))"
proof -
  from three_pad_analyze obtain rep
    where run: "analyze_strip_image three_pad_cv example_polyfit example_image = Inr rep"
    by blast
  from wells_ordered_left_to_right [OF run] obtain img S blobs
    where loc: "locate_pads three_pad_cv example_image = Inr (img, S, blobs)"
      and adj: "\<forall>i. Suc i < length blobs \<longrightarrow> blob_x (blobs ! i) \<le> blob_x (blobs ! Suc i)"
      and wells: "\<forall>i < length blobs.
               well (color_values rep ! i) = i + 1
             \<and> well_r (color_values rep ! i) = r_mean (sample_blob img S (blobs ! i))
             \<and> well_g (color_values rep ! i) = g_mean (sample_blob img S (blobs ! i))
             \<and> well_b (color_values rep ! i) = b_mean (sample_blob img S (blobs ! i))
             \<and> well_s_mean (color_values rep ! i) = s_mean (sample_blob img S (blobs ! i))"
    by blast
  from loc have img: "img = example_image" and S: "S = example_plane"
    and blobs: "blobs = [(0, 1, 2, 400, pi / 4), (1, 1, 2, 400, pi / 4), (2, 1, 2, 400, pi / 4)]"
    by (simp_all add: three_pad_locate)
  from adj [rule_format, of 0] adj [rule_format, of 1]
  have order: "blob_x (0, 1, 2, 400, pi / 4) \<le> blob_x (1, 1, 2, 400, pi / 4)"
    "blob_x (1, 1, 2, 400, pi / 4) \<le> blob_x (2, 1, 2, 400, pi / 4)"
    by (simp_all add: blobs)
  from wells [rule_format, of 2]
  have third: "well (color_values rep ! 2) = 3"
    "well_r (color_values rep ! 2)
       = r_mean (sample_blob example_image example_plane (2, 1, 2, 400, pi / 4))"
    by (simp_all add: blobs img S)
  from run three_pad_detect three_pad_locate order third show ?thesis
    by blast
qed

subsection \<open>No pads detected\<close>

text \<open>
  C4. When the image is normalised and segmented without error and no contour
  qualifies as a blob, the analysis fails with the error whose message is
  "No valid color pads detected on the strip." and returns no report.
\<close>

theorem no_pads_detected:
  assumes "normalize_image cv img0 = Inr img"
    and "cv_hsv_split cv img = Inr (H, S, V)"
    and "cv_clean_contours cv (threshold_mask S V) = Inr cnts"
    and "detect_blobs cv cnts = []"
  shows "analyze_strip_image cv lstsq img0
           = Inl (ValueError ''No valid color pads detected on the strip.'')
       \<and> (\<forall>rep. analyze_strip_image cv lstsq img0 \<noteq> Inr rep)"
  using assms
  by (simp add: analyze_strip_image_def locate_pads_def no_pads_message_def)

theorem no_pads_detected_witness:
  "normalize_image blank_cv example_image = Inr example_image
   \<and> cv_hsv_split blank_cv example_image = Inr (example_plane, example_plane, example_plane)
   \<and> cv_clean_contours blank_cv (threshold_mask example_plane example_plane) = Inr []
   \<and> detect_blobs blank_cv [] = []
   \<and> analyze_strip_image blank_cv example_polyfit example_image
       = Inl (ValueError ''No valid color pads detected on the strip.'')"
proof -
  have h: "cv_hsv_split blank_cv example_image
             = Inr (example_plane, example_plane, example_plane)"
    by (simp add: blank_cv_def example_cv_def)
  have c: "cv_clean_contours blank_cv (threshold_mask example_plane example_plane) = Inr []"
    by (simp add: blank_cv_def)
  have d: "detect_blobs blank_cv [] = []"
    by simp
  from no_pads_detected [OF example_normalize h c d, of example_polyfit]
    example_normalize h c d
  show ?thesis by simp
qed

subsection \<open>Selection of at most eleven blobs\<close>








subsection \<open>The truncation branch\<close>

text \<open>
  C10. Whenever the analysis succeeds, the ordered blob list has at most 11 entries,
  and so has the colour-statistics list sampled from it; the pad-or-truncate step
  therefore only ever appends all-zero records (as many as blobs are missing from 11)
  and never cuts the list.
\<close>

theorem truncation_never_taken:
  assumes "analyze_strip_image cv lstsq img0 = Inr rep"
  shows "\<exists>img S blobs.
           locate_pads cv img0 = Inr (img, S, blobs)
         \<and> length blobs \<le> 11
         \<and> length (sample_blobs img S blobs) \<le> 11
         \<and> \<not> EXPECTED_COLS < length (sample_blobs img S blobs)
         \<and> pad_or_truncate (sample_blobs img S blobs)
             = sample_blobs img S blobs @ replicate (11 - length blobs) zero_stats
         \<and> assemble_report lstsq
               (sample_blobs img S blobs @ replicate (11 - length blobs) zero_stats)
             = Inr rep"
proof -
  from analyze_Inr [OF assms] obtain img S blobs
    where loc: "locate_pads cv img0 = Inr (img, S, blobs)"
      and rep: "assemble_report lstsq (pad_or_truncate (sample_blobs img S blobs)) = Inr rep"
    by blast
  have len: "length blobs \<le> EXPECTED_COLS"
    using located_blobs_sorted(2) [OF loc] .
  then have pad: "pad_or_truncate (sample_blobs img S blobs)
      = sample_blobs img S blobs @ replicate (EXPECTED_COLS - length blobs) zero_stats"
    by (simp add: pad_or_truncate_short length_sample_blobs)
  from loc rep [unfolded pad] len pad show ?thesis
    by (auto simp: length_sample_blobs EXPECTED_COLS_def)
qed

theorem truncation_never_taken_witness:
  "\<exists>rep img S blobs.
       analyze_strip_image example_cv example_polyfit example_image = Inr rep
     \<and> locate_pads example_cv example_image = Inr (img, S, blobs)
     \<and> length (sample_blobs img S blobs) \<le> 11
     \<and> pad_or_truncate (sample_blobs img S blobs)
         = sample_blobs img S blobs @ replicate (11 - length blobs) zero_stats"
proof -
  from example_analyze obtain rep
    where run: "analyze_strip_image example_cv example_polyfit example_image = Inr rep"
    by blast
  from truncation_never_taken [OF run] run show ?thesis
    by blast
qed

subsection \<open>Which contours become blobs\<close>

lemma detect_blobs_filter:
  "detect_blobs cv cnts = map (blob_of cv) (filter (retained_by_spec cv) cnts)"
  by (induction cnts)
    (auto simp: Let_def retained_by_spec_def blob_of_def circularity_def
       MIN_BLOB_AREA_def power2_eq_square)

lemma threshold_mask_item:
  "item (threshold_mask S V) Y X = (if 35 < item S Y X \<and> 40 < item V Y X then 255 else 0)"
  by (simp add: threshold_mask_def SAT_THRESH_def VAL_THRESH_def)

text \<open>
  C7. The mask is set at a pixel exactly when its saturation exceeds 35 and its value
  exceeds 40. A contour is retained as a blob exactly when its perimeter is nonzero,
  its area is at least 60 and its circularity (4 pi area / perimeter squared) is at
  least 0.3: the detected blobs are the blobs of the contours that satisfy this, in
  the order of the contours. Contours of area below 5 or of perimeter zero do not
  satisfy it and are skipped.
\<close>

theorem contour_retained_iff:
  "detect_blobs cv cnts = map (blob_of cv) (filter (retained_by_spec cv) cnts)
   \<and> (detect_blobs cv [c] \<noteq> [] \<longleftrightarrow>
        cv_arcLength cv c \<noteq> 0 \<and> 60 \<le> cv_contourArea cv c
        \<and> 3 / 10 \<le> 4 * pi * cv_contourArea cv c / (cv_arcLength cv c)\<^sup>2)
   \<and> (cv_contourArea cv c < 5 \<or> cv_arcLength cv c = 0 \<longrightarrow> detect_blobs cv [c] = [])
   \<and> (item (threshold_mask S V) Y X \<noteq> 0 \<longleftrightarrow> 35 < item S Y X \<and> 40 < item V Y X)"
proof -
  have one: "detect_blobs cv [c] \<noteq> [] \<longleftrightarrow>
        cv_arcLength cv c \<noteq> 0 \<and> 60 \<le> cv_contourArea cv c
        \<and> 3 / 10 \<le> 4 * pi * cv_contourArea cv c / (cv_arcLength cv c)\<^sup>2"
    by (simp add: detect_blobs_filter retained_by_spec_def circularity_def)
  have skip: "cv_contourArea cv c < 5 \<or> cv_arcLength cv c = 0 \<longrightarrow> detect_blobs cv [c] = []"
    by (auto simp: detect_blobs_filter retained_by_spec_def)
  have mask: "item (threshold_mask S V) Y X \<noteq> 0 \<longleftrightarrow> 35 < item S Y X \<and> 40 < item V Y X"
    by (simp add: threshold_mask_item)
  from detect_blobs_filter [of cv cnts] one skip mask show ?thesis
    by blast
qed

theorem contour_retained_iff_witness:
  "(cv_contourArea degenerate_cv 0 < 5 \<or> cv_arcLength degenerate_cv 0 = 0)
   \<and> detect_blobs degenerate_cv [0] = []
   \<and> detect_blobs example_cv [0] = [(1, 1, 2, 400, pi / 4)]
   \<and> item (threshold_mask example_plane example_plane) 0 0 \<noteq> 0"
proof -
  have "3 / 10 \<le> pi / 4"
    using pi_ge_two by simp
  then have keep: "retained_by_spec example_cv 0"
    by (simp add: retained_by_spec_def circularity_def example_cv_def)
  have blob: "blob_of example_cv 0 = (1, 1, 2, 400, pi / 4)"
    by (simp add: blob_of_def circularity_def example_cv_def py_int_def py_round_def)
  have px: "35 < item example_plane 0 0 \<and> 40 < item example_plane 0 0"
    by (simp add: example_plane_def)
  have zero: "cv_contourArea degenerate_cv 0 < 5 \<or> cv_arcLength degenerate_cv 0 = 0"
    by (simp add: degenerate_cv_def)
  from contour_retained_iff [of example_cv "[0]" 0 example_plane example_plane 0 0]
  have kept: "detect_blobs example_cv [0]
                = map (blob_of example_cv) (filter (retained_by_spec example_cv) [0])"
    and mask: "item (threshold_mask example_plane example_plane) 0 0 \<noteq> 0
                 \<longleftrightarrow> 35 < item example_plane 0 0 \<and> 40 < item example_plane 0 0"
    by blast+
  from contour_retained_iff [of degenerate_cv "[0]" 0 example_plane example_plane 0 0] zero
  have skipped: "detect_blobs degenerate_cv [0] = []"
    by blast
  have "detect_blobs example_cv [0] = [(1, 1, 2, 400, pi / 4)]"
    unfolding kept by (simp add: keep blob)
  with zero skipped mask px show ?thesis
    by blast
qed

subsection \<open>Degenerate sampling masks\<close>

lemma sample_blob_empty_mask:
  assumes "mask_circle (shape0 img) (shape1 img) (blob_x b) (blob_y b)
             (sample_radius (blob_r b)) = []"
  shows "sample_blob img S b = zero_stats"
  using assms by (simp add: sample_blob_def Let_def)

text \<open>
  C8. When the circular sampling mask of a blob (its radius times 0.72, truncated, at
  least 1 pixel; a pixel belongs to it when its squared distance from the centroid is
  at most the squared radius) selects no pixel of the image, the sampler emits the
  all-zero statistics record for that well. The sampler still emits one record per
  blob, and the records of the other wells are the samples of their blobs.
\<close>

theorem degenerate_mask_gives_zero_stats:
  assumes "i < length blobs"
    and "mask_circle (shape0 img) (shape1 img) (blob_x (blobs ! i)) (blob_y (blobs ! i))
           (max 1 (py_int (of_int (blob_r (blobs ! i)) * (72 / 100)))) = []"
  shows "sample_blobs img S blobs ! i
           = \<lparr>r_mean = 0, g_mean = 0, b_mean = 0, s_mean = 0,
              r_std = 0, g_std = 0, b_std = 0\<rparr>
       \<and> length (sample_blobs img S blobs) = length blobs
       \<and> (\<forall>j < length blobs. sample_blobs img S blobs ! j = sample_blob img S (blobs ! j))"
proof -
  have "sample_blob img S (blobs ! i) = zero_stats"
    using assms(2) by (intro sample_blob_empty_mask) (simp add: sample_radius_def)
  with assms(1) show ?thesis
    by (simp add: sample_blobs_def zero_stats_def)
qed

theorem degenerate_mask_gives_zero_stats_witness:
  "mask_circle (shape0 example_image) (shape1 example_image) (blob_x outside_blob)
      (blob_y outside_blob) (max 1 (py_int (of_int (blob_r outside_blob) * (72 / 100)))) = []
   \<and> sample_blobs example_image example_plane [outside_blob] ! 0
       = \<lparr>r_mean = 0, g_mean = 0, b_mean = 0, s_mean = 0, r_std = 0, g_std = 0, b_std = 0\<rparr>"
proof -
  have r: "max 1 (py_int (of_int (blob_r outside_blob) * (72 / 100))) = 2"
    by (simp add: outside_blob_def blob_r_def py_int_def)
  have m: "mask_circle (shape0 example_image) (shape1 example_image) (blob_x outside_blob)
      (blob_y outside_blob) (max 1 (py_int (of_int (blob_r outside_blob) * (72 / 100)))) = []"
    unfolding r
    by (simp add: example_image_def outside_blob_def blob_x_def blob_y_def mask_circle_def
          upt_rec)
  have i: "0 < length [outside_blob]"
    by simp
  from degenerate_mask_gives_zero_stats [of 0 "[outside_blob]" example_image example_plane]
    m i
  show ?thesis by simp
qed

subsection \<open>Fit quality\<close>











subsection \<open>Constant channels\<close>

lemma green_sample:
  "sample_blob green_image example_plane (1, 1, 2, area, circ)
     = \<lparr>r_mean = 0, g_mean = 255, b_mean = 0, s_mean = 200,
        r_std = 0, g_std = 0, b_std = 0\<rparr>"
  using example_masks(2)
  by (simp add: sample_blob_def Let_def blob_x_def blob_y_def blob_r_def sample_radius_2
        green_image_def example_plane_def u8_def case_prod_unfold np_mean_same np_std_same)

lemma green_locate:
  "locate_pads example_cv green_image
     = Inr (green_image, example_plane, [(1, 1, 2, 400, pi / 4)])"
proof -
  have n: "normalize_image example_cv green_image = Inr green_image"
    by (simp add: normalize_image_def green_image_def Let_def)
  have h: "cv_hsv_split example_cv green_image
             = Inr (example_plane, example_plane, example_plane)"
    by (simp add: example_cv_def)
  have c: "cv_clean_contours example_cv (threshold_mask example_plane example_plane) = Inr [0]"
    by (simp add: example_cv_def)
  show ?thesis
    by (simp add: locate_pads_def n h c example_detect select_blobs_single
          del: detect_blobs.simps)
qed

lemma green_red_channel:
  "map r_mean (pad_or_truncate
      (sample_blobs green_image example_plane [(1, 1, 2, 400, pi / 4)])) = zero_channel"
  by (simp add: pad_or_truncate_def sample_blobs_def green_sample EXPECTED_COLS_def
        zero_stats_def zero_channel_def numeral_eq_Suc)

text \<open>
  C9 fails on the code for the channel that is zero in every well. The inverse fit
  takes the channel values as its abscissae; the columns of their first and second
  powers have norm zero, and the fit raises LinAlgError. So on a nonempty all-zero
  channel the fitting routine returns no fit record at all, and when its forward fit
  has returned, the error it ends with is LinAlgError.
\<close>

theorem zero_channel_fit_raises:
  assumes "y_vals \<noteq> []" and "\<forall>y \<in> set y_vals. y = 0"
  shows "(\<forall>fit. fit_and_evaluate lstsq y_vals x_vals channel_name \<noteq> Inr fit)
       \<and> (\<forall>cs. np_polyfit lstsq x_vals y_vals 2 = Inr cs \<longrightarrow>
            fit_and_evaluate lstsq y_vals x_vals channel_name = Inl LinAlgError)"
proof -
  have inverse: "np_polyfit lstsq y_vals x_vals 2 = Inl LinAlgError"
    if "length y_vals = length x_vals"
    using assms that by (simp add: np_polyfit_2)
  have never: "fit_and_evaluate lstsq y_vals x_vals channel_name \<noteq> Inr fit" for fit
  proof
    assume "fit_and_evaluate lstsq y_vals x_vals channel_name = Inr fit"
    from fit_and_evaluate_Inr [OF this] obtain inv_cs
      where inv: "np_polyfit lstsq y_vals x_vals 2 = Inr inv_cs"
      by blast
    from np_polyfit_Inr(3) [OF inv] inverse inv show False
      by simp
  qed
  have raised: "fit_and_evaluate lstsq y_vals x_vals channel_name = Inl LinAlgError"
    if fwd: "np_polyfit lstsq x_vals y_vals 2 = Inr cs" for cs
  proof -
    from np_polyfit_Inr(3) [OF fwd] have "length y_vals = length x_vals"
      by simp
    from inverse [OF this] fwd show ?thesis
      by (simp add: fit_and_evaluate_def Let_def)
  qed
  from never raised show ?thesis by blast
qed

theorem zero_channel_fit_raises_witness:
  "zero_channel \<noteq> [] \<and> set zero_channel = {0}
   \<and> fit_and_evaluate example_polyfit zero_channel CONCENTRATIONS ''R'' = Inl LinAlgError
   \<and> analyze_strip_image example_cv example_polyfit green_image = Inl LinAlgError"
proof -
  have ne: "zero_channel \<noteq> []" and zs: "set zero_channel = {0}"
    by (simp_all add: zero_channel_def)
  then have zero: "\<forall>y \<in> set zero_channel. y = 0"
    by simp
  have "np_polyfit example_polyfit CONCENTRATIONS zero_channel 2 = Inr [1, 2, 3]"
    by (simp add: np_polyfit_2 CONCENTRATIONS_def zero_channel_def example_polyfit_def)
  with zero_channel_fit_raises [OF ne zero, of example_polyfit CONCENTRATIONS "''R''"]
  have fit: "fit_and_evaluate example_polyfit zero_channel CONCENTRATIONS ''R''
               = Inl LinAlgError"
    by blast
  then have "analyze_strip_image example_cv example_polyfit green_image = Inl LinAlgError"
    by (simp add: analyze_strip_image_def green_locate assemble_report_def Let_def
          green_red_channel)
  with ne zs fit show ?thesis
    by blast
qed

end
